theory Spec2Isabelle
  imports Main "HOL-Library.AList" "HOL-Library.Word"
begin

section \<open>The student API of \<^verbatim>\<open>src/app.py\<close>\<close>

text \<open>
  The program is a Flask application over one module-level dictionary \<^verbatim>\<open>students\<close>.
  Each handler is embedded as a function from the handler's inputs (the path parameter,
  the value of \<^verbatim>\<open>request.json\<close>) and the dictionary before the request to the
  response and the dictionary after it. Flask itself (routing, parsing the body into
  \<^verbatim>\<open>request.json\<close>, turning an exception into a status code) is not part of the
  source: the handlers are modelled from the point where they are called, with the value
  of \<^verbatim>\<open>request.json\<close> as an input.
\<close>

subsection \<open>JSON values as Python sees them\<close>

text \<open>
  \<^verbatim>\<open>request.json\<close> is the Python value the JSON body parses to: \<^verbatim>\<open>None\<close>,
  a \<^verbatim>\<open>bool\<close>, an \<^verbatim>\<open>int\<close> (unbounded), a \<^verbatim>\<open>float\<close> (kept as the 64 bits of the
  double), a \<^verbatim>\<open>str\<close>, a \<^verbatim>\<open>list\<close> or a \<^verbatim>\<open>dict\<close> with string keys (kept in
  insertion order as an association list, looked up with \<open>map_of\<close>; the keys of a
  dict are pairwise different, which no theorem below needs).
  \<open>JNull\<close> is Python's \<^verbatim>\<open>None\<close>: it is what \<^verbatim>\<open>request.json\<close> holds for the body
  \<^verbatim>\<open>null\<close>, and what it holds when Flask finds no JSON body and reports that by
  \<^verbatim>\<open>None\<close>, the case the comments of the source call "missing or not in JSON format".
\<close>

datatype json =
    JNull
  | JBool bool
  | JInt int
  | JFloat "64 word"
  | JString string
  | JArray "json list"
  | JObject "(string \<times> json) list"

text \<open>Python's truth value, as used by \<^verbatim>\<open>not request.json\<close>. A float is false when it
  is \<^verbatim>\<open>0.0\<close> or \<^verbatim>\<open>-0.0\<close>, the two doubles whose bits below the sign are all zero.\<close>

fun truthy :: "json \<Rightarrow> bool" where
  "truthy JNull = False"
| "truthy (JBool b) = b"
| "truthy (JInt n) = (n \<noteq> 0)"
| "truthy (JFloat w) = (w \<noteq> 0 \<and> w \<noteq> 0x8000000000000000)"
| "truthy (JString s) = (s \<noteq> [])"
| "truthy (JArray xs) = (xs \<noteq> [])"
| "truthy (JObject kvs) = (kvs \<noteq> [])"

text \<open>\<^verbatim>\<open>needle in hay\<close> on two strings: \<open>needle\<close> occurs in \<open>hay\<close> as a contiguous run.\<close>

fun str_contains :: "string \<Rightarrow> string \<Rightarrow> bool" where
  "str_contains needle [] = (needle = [])"
| "str_contains needle (c # cs) =
     (take (length needle) (c # cs) = needle \<or> str_contains needle cs)"

text \<open>The exceptions a handler can end with. \<^verbatim>\<open>abort(404)\<close> and \<^verbatim>\<open>abort(400)\<close> are
  the two the source raises itself; any other exception (a \<^verbatim>\<open>TypeError\<close> or an
  \<^verbatim>\<open>AttributeError\<close> from an operation on a value of the wrong Python type) is not
  caught by the handler and Flask answers 500.\<close>

datatype http_error = NotFound | BadRequest | InternalServerError

text \<open>\<^verbatim>\<open>key in value\<close>: key membership on a dict, element membership on a list, substring
  on a string; \<open>None\<close> is the \<^verbatim>\<open>TypeError\<close> of every other type.\<close>

fun py_in :: "string \<Rightarrow> json \<Rightarrow> bool option" where
  "py_in k (JObject kvs) = Some (k \<in> set (map fst kvs))"
| "py_in k (JArray xs) = Some (JString k \<in> set xs)"
| "py_in k (JString s) = Some (str_contains k s)"
| "py_in k JNull = None"
| "py_in k (JBool b) = None"
| "py_in k (JInt n) = None"
| "py_in k (JFloat w) = None"

text \<open>\<^verbatim>\<open>value[key]\<close> with a string key: the entry of a dict (\<^verbatim>\<open>KeyError\<close> when there is
  none), a \<^verbatim>\<open>TypeError\<close> on every other type. \<open>None\<close> is the exception.\<close>

fun py_getitem :: "json \<Rightarrow> string \<Rightarrow> json option" where
  "py_getitem (JObject kvs) k = map_of kvs k"
| "py_getitem (JArray xs) k = None"
| "py_getitem (JString s) k = None"
| "py_getitem JNull k = None"
| "py_getitem (JBool b) k = None"
| "py_getitem (JInt n) k = None"
| "py_getitem (JFloat w) k = None"

text \<open>\<^verbatim>\<open>value.get(key, default)\<close>: only a dict has the method; \<open>None\<close> is the
  \<^verbatim>\<open>AttributeError\<close> of every other type.\<close>

fun py_get :: "json \<Rightarrow> string \<Rightarrow> json \<Rightarrow> json option" where
  "py_get (JObject kvs) k dflt = Some (case map_of kvs k of None \<Rightarrow> dflt | Some v \<Rightarrow> v)"
| "py_get (JArray xs) k dflt = None"
| "py_get (JString s) k dflt = None"
| "py_get JNull k dflt = None"
| "py_get (JBool b) k dflt = None"
| "py_get (JInt n) k dflt = None"
| "py_get (JFloat w) k dflt = None"

subsection \<open>The store\<close>

text \<open>A student is the dict the source builds with the four keys \<^verbatim>\<open>'ID'\<close>, \<^verbatim>\<open>'Name'\<close>,
  \<^verbatim>\<open>'Grade'\<close>, \<^verbatim>\<open>'Email'\<close>. The last three hold whatever JSON value the request
  supplied: the source checks no types.\<close>

record student =
  ID :: int
  Name :: json
  Grade :: json
  Email :: json

text \<open>\<^verbatim>\<open>students = {}\<close>: a Python dict from int to student, in insertion order.
  The keys are Python ints: the path parameter of the routes (which the router only
  matches on a run of digits) and the \<^verbatim>\<open>new_id\<close> of a create.
  \<open>AList.update\<close> is \<^verbatim>\<open>students[k] = v\<close> (in place for a key that is there, at the end
  for a new one), \<open>AList.delete\<close> is \<^verbatim>\<open>del students[k]\<close>, \<open>map_of\<close> is
  \<^verbatim>\<open>students.get(k)\<close>.\<close>

type_synonym students = "(int \<times> student) list"

text \<open>\<^verbatim>\<open>max(keys, default=d)\<close>.\<close>

fun max_default :: "int list \<Rightarrow> int \<Rightarrow> int" where
  "max_default [] d = d"
| "max_default (x # xs) d = fold max xs x"

subsection \<open>Responses\<close>

datatype body =
    Student_json student
  | Students_json "student list"
  | Value_json json
  | Text_body string
  | Empty_body

text \<open>A response is the exception the handler ended with, or the pair of status code and
  body it returned.\<close>

type_synonym response = "http_error + (nat \<times> body)"

fun status_code :: "response \<Rightarrow> nat" where
  "status_code (Inl NotFound) = 404"
| "status_code (Inl BadRequest) = 400"
| "status_code (Inl InternalServerError) = 500"
| "status_code (Inr (code, b)) = code"

subsection \<open>The handlers\<close>

definition index :: "students \<Rightarrow> response \<times> students" where
  "index students =
     (Inr (200, Text_body
        ''Welcome to the Student API! Try accessing /students to see all students.''),
      students)"

definition health_check :: "students \<Rightarrow> response \<times> students" where
  "health_check students =
     (Inr (200, Value_json (JObject [(''status'', JString ''healthy'')])), students)"

definition get_students :: "students \<Rightarrow> response \<times> students" where
  "get_students students = (Inr (200, Students_json (map snd students)), students)"

definition get_student :: "int \<Rightarrow> students \<Rightarrow> response \<times> students" where
  "get_student student_id students =
     (case map_of students student_id of
        None \<Rightarrow> (Inl NotFound, students)
      | Some student \<Rightarrow> (Inr (200, Student_json student), students))"

definition create_student :: "json \<Rightarrow> students \<Rightarrow> response \<times> students" where
  "create_student request_json students =
     (if \<not> truthy request_json then (Inl BadRequest, students)
      else case py_in ''Name'' request_json of
        None \<Rightarrow> (Inl InternalServerError, students)
      | Some False \<Rightarrow> (Inl BadRequest, students)
      | Some True \<Rightarrow>
          (let new_id = max_default (map fst students) 0 + 1 in
           case py_getitem request_json ''Name'' of
             None \<Rightarrow> (Inl InternalServerError, students)
           | Some name \<Rightarrow>
          (case py_get request_json ''Grade'' (JString ''N/A'') of
             None \<Rightarrow> (Inl InternalServerError, students)
           | Some grade \<Rightarrow>
          (case py_get request_json ''Email'' (JString '''') of
             None \<Rightarrow> (Inl InternalServerError, students)
           | Some email \<Rightarrow>
          (let new_student = \<lparr>ID = new_id, Name = name, Grade = grade, Email = email\<rparr>
           in (Inr (201, Student_json new_student),
               AList.update new_id new_student students))))))"

text \<open>\<^verbatim>\<open>student\<close> is the very dict the store holds, so each assignment to one of its keys
  changes the store at once; the model writes the record back after each assignment.
  The right-hand side of an assignment is evaluated before the assignment is made.\<close>

definition update_student :: "int \<Rightarrow> json \<Rightarrow> students \<Rightarrow> response \<times> students" where
  "update_student student_id request_json students =
     (case map_of students student_id of
        None \<Rightarrow> (Inl NotFound, students)
      | Some student \<Rightarrow>
          if \<not> truthy request_json then (Inl BadRequest, students)
          else
          (case py_get request_json ''Name'' (Name student) of
             None \<Rightarrow> (Inl InternalServerError, students)
           | Some name \<Rightarrow>
          (let student1 = student\<lparr>Name := name\<rparr>;
               students1 = AList.update student_id student1 students in
           case py_get request_json ''Grade'' (Grade student1) of
             None \<Rightarrow> (Inl InternalServerError, students1)
           | Some grade \<Rightarrow>
          (let student2 = student1\<lparr>Grade := grade\<rparr>;
               students2 = AList.update student_id student2 students1 in
           case py_get request_json ''Email'' (Email student2) of
             None \<Rightarrow> (Inl InternalServerError, students2)
           | Some email \<Rightarrow>
          (let student3 = student2\<lparr>Email := email\<rparr>;
               students3 = AList.update student_id student3 students2;
               students4 = AList.update student_id student3 students3
           in (Inr (200, Student_json student3), students4))))))"

definition delete_student :: "int \<Rightarrow> students \<Rightarrow> response \<times> students" where
  "delete_student student_id students =
     (if student_id \<in> set (map fst students)
      then (Inr (204, Empty_body), AList.delete student_id students)
      else (Inl NotFound, students))"

subsection \<open>Requests and runs\<close>

datatype request =
    GET_index
  | GET_health
  | GET_students
  | GET_student int
  | POST_students json
  | PUT_student int json
  | DELETE_student int

fun handle :: "request \<Rightarrow> students \<Rightarrow> response \<times> students" where
  "handle GET_index s = index s"
| "handle GET_health s = health_check s"
| "handle GET_students s = get_students s"
| "handle (GET_student i) s = get_student i s"
| "handle (POST_students j) s = create_student j s"
| "handle (PUT_student i j) s = update_student i j s"
| "handle (DELETE_student i) s = delete_student i s"

text \<open>The store after a sequence of requests, served one after the other.\<close>

fun run :: "request list \<Rightarrow> students \<Rightarrow> students" where
  "run [] s = s"
| "run (r # rs) s = run rs (snd (handle r s))"

subsection \<open>Observations and example data\<close>

text \<open>The responses to a sequence of requests served one after the other, in order.\<close>

fun responses :: "request list \<Rightarrow> students \<Rightarrow> response list" where
  "responses [] s = []"
| "responses (r # rs) s = fst (handle r s) # responses rs (snd (handle r s))"

text \<open>The \<^verbatim>\<open>ID\<close> of the student a response carries, if it carries one.\<close>

fun response_ID :: "response \<Rightarrow> int option" where
  "response_ID (Inr (code, Student_json st)) = Some (ID st)"
| "response_ID (Inr (code, Students_json sts)) = None"
| "response_ID (Inr (code, Value_json j)) = None"
| "response_ID (Inr (code, Text_body t)) = None"
| "response_ID (Inr (code, Empty_body)) = None"
| "response_ID (Inl e) = None"

text \<open>The scenario of the specification's section 8: create Alice, create Bob with a
  grade, delete student 1, create Carl.\<close>

definition scenario :: "request list" where
  "scenario =
    [POST_students (JObject [(''Name'', JString ''Alice'')]),
     POST_students (JObject [(''Name'', JString ''Bob''), (''Grade'', JString ''B'')]),
     DELETE_student 1,
     POST_students (JObject [(''Name'', JString ''Carl'')])]"

definition alice :: student where
  "alice = \<lparr>ID = 1, Name = JString ''Alice'', Grade = JString ''N/A'', Email = JString ''''\<rparr>"

definition bob :: student where
  "bob = \<lparr>ID = 2, Name = JString ''Bob'', Grade = JString ''B'', Email = JString ''''\<rparr>"

definition carl :: student where
  "carl = \<lparr>ID = 3, Name = JString ''Carl'', Grade = JString ''N/A'', Email = JString ''''\<rparr>"

definition store_b :: students where
  "store_b = [(2, bob)]"

definition store_ab :: students where
  "store_ab = [(1, alice), (2, bob)]"

definition store_bc :: students where
  "store_bc = [(2, bob), (3, carl)]"

definition zed :: student where
  "zed = \<lparr>ID = 3, Name = JString ''Zed'', Grade = JString ''N/A'', Email = JString ''''\<rparr>"

definition alice_zed :: student where
  "alice_zed = \<lparr>ID = 1, Name = JString ''Zed'', Grade = JString ''N/A'', Email = JString ''''\<rparr>"

definition store_abz :: students where
  "store_abz = [(1, alice), (2, bob), (3, zed)]"

definition store_zb :: students where
  "store_zb = [(1, alice_zed), (2, bob)]"

text \<open>A request body that supplies an \<^verbatim>\<open>ID\<close>: \<^verbatim>\<open>{"ID": 7, "Name": "Zed"}\<close>.\<close>

definition body_with_ID :: "(string \<times> json) list" where
  "body_with_ID = [(''ID'', JInt 7), (''Name'', JString ''Zed'')]"

subsection \<open>The invariant of the store\<close>

text \<open>The keys are pairwise different (the store is a dict) and every record is stored
  under its own \<^verbatim>\<open>ID\<close>.\<close>

definition store_ok :: "students \<Rightarrow> bool" where
  "store_ok s \<longleftrightarrow> distinct (map fst s) \<and> (\<forall>(k, st) \<in> set s. ID st = k)"

section \<open>Auxiliary facts\<close>

lemma fold_max_Max: "fold max xs (x::int) = Max (set (x # xs))"
  by (rule Max.set_eq_fold [symmetric])

lemma max_default_Max:
  "max_default ks d = (if ks = [] then d else Max (set ks))"
proof (cases ks)
  case Nil
  then show ?thesis by simp
next
  case (Cons k ks')
  then show ?thesis using fold_max_Max [of ks' k] by simp
qed

lemma max_default_ge: "k \<in> set ks \<Longrightarrow> k \<le> max_default ks d"
  by (auto simp: max_default_Max)

lemma new_id_fresh: "max_default (map fst s) 0 + 1 \<notin> set (map fst s)"
proof
  assume "max_default (map fst s) 0 + 1 \<in> set (map fst s)"
  then have "max_default (map fst s) 0 + 1 \<le> max_default (map fst s) 0"
    by (rule max_default_ge)
  then show False by simp
qed

lemma create_student_object:
  assumes "map_of kvs ''Name'' = Some name"
  shows "create_student (JObject kvs) s =
    (let new_id = max_default (map fst s) 0 + 1;
         new_student = \<lparr>ID = new_id, Name = name,
            Grade = (case map_of kvs ''Grade'' of None \<Rightarrow> JString ''N/A'' | Some g \<Rightarrow> g),
            Email = (case map_of kvs ''Email'' of None \<Rightarrow> JString [] | Some e \<Rightarrow> e)\<rparr>
     in (Inr (201, Student_json new_student), AList.update new_id new_student s))"
proof -
  from assms have ne: "kvs \<noteq> []" by auto
  from assms have mem: "''Name'' \<in> fst ` set kvs"
    by (metis domI dom_map_of_conv_image_fst)
  show ?thesis
    using assms ne mem by (simp add: create_student_def Let_def)
qed

lemma update_student_object:
  assumes "map_of s i = Some st" and "kvs \<noteq> []"
  shows "update_student i (JObject kvs) s =
    (let st' = st\<lparr>
           Name := (case map_of kvs ''Name'' of None \<Rightarrow> Name st | Some v \<Rightarrow> v),
           Grade := (case map_of kvs ''Grade'' of None \<Rightarrow> Grade st | Some v \<Rightarrow> v),
           Email := (case map_of kvs ''Email'' of None \<Rightarrow> Email st | Some v \<Rightarrow> v)\<rparr>
     in (Inr (200, Student_json st'), AList.update i st' s))"
  using assms by (simp add: update_student_def Let_def split: option.split)

text \<open>What \<^verbatim>\<open>PUT /students/<id>\<close> answers, for every store and every value of
  \<^verbatim>\<open>request.json\<close>.\<close>

lemma update_student_status:
  "status_code (fst (update_student i j s)) =
     (if map_of s i = None then 404
      else if \<not> truthy j then 400
      else case j of JObject kvs \<Rightarrow> 200 | _ \<Rightarrow> 500)"
  by (cases j) (auto simp: update_student_def Let_def split: option.splits)

subsection \<open>The body of a request is read through four questions only\<close>

lemma create_student_body_cong:
  assumes "kvs = [] \<longleftrightarrow> kvs' = []"
    and "map_of kvs ''Name'' = map_of kvs' ''Name''"
    and "map_of kvs ''Grade'' = map_of kvs' ''Grade''"
    and "map_of kvs ''Email'' = map_of kvs' ''Email''"
  shows "create_student (JObject kvs) s = create_student (JObject kvs') s"
proof -
  have "''Name'' \<in> fst ` set kvs \<longleftrightarrow> ''Name'' \<in> fst ` set kvs'"
    using assms(2) by (metis map_of_eq_None_iff)
  then show ?thesis
    using assms by (simp add: create_student_def Let_def split: bool.split option.split)
qed

lemma update_student_body_cong:
  assumes "kvs = [] \<longleftrightarrow> kvs' = []"
    and "map_of kvs ''Name'' = map_of kvs' ''Name''"
    and "map_of kvs ''Grade'' = map_of kvs' ''Grade''"
    and "map_of kvs ''Email'' = map_of kvs' ''Email''"
  shows "update_student i (JObject kvs) s = update_student i (JObject kvs') s"
  using assms by (simp add: update_student_def Let_def split: option.split)

subsection \<open>Every handler keeps the invariant\<close>

lemma set_update_subset: "set (AList.update k v al) \<subseteq> insert (k, v) (set al)"
  by (induction al) auto

lemma set_delete_subset: "set (AList.delete k al) \<subseteq> set al"
  by (auto simp: AList.delete_eq)

lemma store_ok_Nil: "store_ok []"
  by (simp add: store_ok_def)

lemma store_ok_update:
  assumes "store_ok s" and "ID st = k"
  shows "store_ok (AList.update k st s)"
  using assms set_update_subset [of k st s]
  unfolding store_ok_def by (auto simp: distinct_update)

lemma store_ok_delete:
  assumes "store_ok s"
  shows "store_ok (AList.delete k s)"
  using assms set_delete_subset [of k s]
  unfolding store_ok_def by (auto simp: distinct_delete)

lemma store_ok_lookup: "store_ok s \<Longrightarrow> map_of s k = Some st \<Longrightarrow> ID st = k"
  unfolding store_ok_def by (auto dest: map_of_SomeD)

lemma store_ok_create_student: "store_ok s \<Longrightarrow> store_ok (snd (create_student j s))"
  by (auto simp: create_student_def Let_def store_ok_update split: option.splits bool.splits)

lemma store_ok_update_student:
  assumes "store_ok s"
  shows "store_ok (snd (update_student i j s))"
proof (cases "map_of s i")
  case None
  then show ?thesis using assms by (simp add: update_student_def)
next
  case (Some st)
  with assms have "ID st = i" by (rule store_ok_lookup)
  with Some assms show ?thesis
    by (auto simp: update_student_def Let_def store_ok_update split: option.splits)
qed

lemma store_ok_delete_student: "store_ok s \<Longrightarrow> store_ok (snd (delete_student i s))"
  by (simp add: delete_student_def store_ok_delete)

lemma store_ok_handle: "store_ok s \<Longrightarrow> store_ok (snd (handle r s))"
  by (cases r)
    (simp_all add: index_def health_check_def get_students_def get_student_def
      store_ok_create_student store_ok_update_student store_ok_delete_student
      split: option.splits)

lemma store_ok_run: "store_ok s \<Longrightarrow> store_ok (run rs s)"
  by (induction rs arbitrary: s) (simp_all add: store_ok_handle)

subsection \<open>A handler that ends with an exception leaves the store alone\<close>

lemma create_student_error:
  "fst (create_student j s) = Inl e \<Longrightarrow> snd (create_student j s) = s"
  by (auto simp: create_student_def Let_def split: option.splits bool.splits if_splits)

lemma update_student_error:
  "fst (update_student i j s) = Inl e \<Longrightarrow> snd (update_student i j s) = s"
  by (cases j) (auto simp: update_student_def Let_def split: option.splits if_splits)

lemma delete_student_error:
  "fst (delete_student i s) = Inl e \<Longrightarrow> snd (delete_student i s) = s"
  by (auto simp: delete_student_def split: if_splits)

lemma get_student_same: "snd (get_student i s) = s"
  by (simp add: get_student_def split: option.splits)

lemma handle_error: "fst (handle r s) = Inl e \<Longrightarrow> snd (handle r s) = s"
  by (cases r)
    (simp_all add: index_def health_check_def get_students_def get_student_same
      create_student_error update_student_error delete_student_error)

lemma status_code_error:
  "status_code (fst (handle r s)) = 404 \<or> status_code (fst (handle r s)) = 400
   \<Longrightarrow> \<exists>e. fst (handle r s) = Inl e"
  by (cases r; cases "fst (handle r s)")
    (auto simp: index_def health_check_def get_students_def get_student_def
      create_student_def update_student_def delete_student_def Let_def
      split: option.splits bool.splits if_splits)

section \<open>The claims\<close>

text \<open>
  C1. For every store and every \<^verbatim>\<open>POST /students\<close> whose JSON body is an object with the
  key \<^verbatim>\<open>Name\<close>: the response is 201 with the created record, the record's \<^verbatim>\<open>ID\<close> is
  one more than the greatest key of the store (one more than 0 for the empty store), that
  key was not in the store, the record is stored under it, and no other key changes.
\<close>

theorem create_student_next_id:
  assumes "''Name'' \<in> fst ` set kvs"
  shows "\<exists>st. create_student (JObject kvs) s
            = (Inr (201, Student_json st), AList.update (ID st) st s)
          \<and> ID st = (if s = [] then 0 else Max (fst ` set s)) + 1
          \<and> ID st \<notin> fst ` set s
          \<and> map_of (AList.update (ID st) st s) (ID st) = Some st
          \<and> (\<forall>k. k \<noteq> ID st \<longrightarrow> map_of (AList.update (ID st) st s) k = map_of s k)"
proof -
  from assms obtain name where n: "map_of kvs ''Name'' = Some name"
    by (metis domD dom_map_of_conv_image_fst)
  have m: "max_default (map fst s) 0 = (if s = [] then 0 else Max (fst ` set s))"
    by (simp add: max_default_Max)
  show ?thesis
    using new_id_fresh [of s]
    by (simp add: create_student_object [OF n] Let_def m update_conv')
qed

theorem create_student_next_id_witness:
  "''Name'' \<in> fst ` set [(''Name'', JString ''Carl'')]
   \<and> (\<exists>st. create_student (JObject [(''Name'', JString ''Carl'')]) store_b
            = (Inr (201, Student_json st), AList.update (ID st) st store_b)
          \<and> ID st = (if store_b = [] then 0 else Max (fst ` set store_b)) + 1
          \<and> ID st \<notin> fst ` set store_b
          \<and> map_of (AList.update (ID st) st store_b) (ID st) = Some st
          \<and> (\<forall>k. k \<noteq> ID st \<longrightarrow>
                map_of (AList.update (ID st) st store_b) k = map_of store_b k))"
proof -
  have h: "''Name'' \<in> fst ` set [(''Name'', JString ''Carl'')]" by simp
  from create_student_next_id [OF h, of store_b] h show ?thesis by blast
qed

text \<open>
  C2, as the code has it. From the empty store, creating Alice, creating Bob with grade B,
  deleting student 1 and creating Carl are answered 201 with \<^verbatim>\<open>ID\<close> 1, 201 with
  \<^verbatim>\<open>ID\<close> 2, 204 with an empty body, and 201 with \<^verbatim>\<open>ID\<close> 3: the greatest key left is
  2, so Carl gets 3.
\<close>

theorem scenario_responses:
  "responses scenario [] =
    [Inr (201, Student_json alice), Inr (201, Student_json bob),
     Inr (204, Empty_body), Inr (201, Student_json carl)]
   \<and> status_code (last (responses scenario [])) = 201
   \<and> response_ID (last (responses scenario [])) = Some 3"
  by (simp add: scenario_def create_student_def delete_student_def Let_def
      alice_def bob_def carl_def)

text \<open>C2 as stated fails: the last response of the scenario is not a 201 with \<^verbatim>\<open>ID\<close> 2.\<close>

theorem scenario_last_ID_not_2:
  "\<not> (status_code (last (responses scenario [])) = 201
      \<and> response_ID (last (responses scenario [])) = Some 2)"
  by (simp add: scenario_def create_student_def delete_student_def Let_def)

text \<open>
  C3 fails on the code at the empty object: with student 1 in the store,
  \<^verbatim>\<open>PUT /students/1\<close> with the body \<^verbatim>\<open>{}\<close> is answered 400 and nothing is merged,
  because \<^verbatim>\<open>not request.json\<close> is true of the empty dict.
\<close>

theorem update_student_empty_object:
  "update_student 1 (JObject []) [(1, alice)] = (Inl BadRequest, [(1, alice)])
   \<and> status_code (fst (update_student 1 (JObject []) [(1, alice)])) = 400"
  by (simp add: update_student_def)

text \<open>
  C4. For every store that holds a record under \<open>i\<close>, \<^verbatim>\<open>PUT /students/i\<close> with the body
  \<^verbatim>\<open>{"Grade": g}\<close> is answered 200 with the record as it is stored afterwards; that
  record has \<^verbatim>\<open>Grade\<close> \<open>g\<close> and the \<^verbatim>\<open>ID\<close>, \<^verbatim>\<open>Name\<close> and \<^verbatim>\<open>Email\<close> it had; every
  other key holds what it held, and the keys and their order are the same.
\<close>

theorem update_student_only_Grade:
  assumes "map_of s i = Some st"
  shows "\<exists>st'. update_student i (JObject [(''Grade'', g)]) s
            = (Inr (200, Student_json st'), AList.update i st' s)
          \<and> map_of (AList.update i st' s) i = Some st'
          \<and> Grade st' = g \<and> ID st' = ID st \<and> Name st' = Name st \<and> Email st' = Email st
          \<and> (\<forall>k. k \<noteq> i \<longrightarrow> map_of (AList.update i st' s) k = map_of s k)
          \<and> map fst (AList.update i st' s) = map fst s"
proof -
  from assms have "i \<in> fst ` set s"
    by (metis domI dom_map_of_conv_image_fst)
  then show ?thesis
    using assms
    by (simp add: update_student_object Let_def update_conv' update_keys)
qed

theorem update_student_only_Grade_witness:
  "map_of store_ab 1 = Some alice
   \<and> (\<exists>st'. update_student 1 (JObject [(''Grade'', JString ''A'')]) store_ab
            = (Inr (200, Student_json st'), AList.update 1 st' store_ab)
          \<and> map_of (AList.update 1 st' store_ab) 1 = Some st'
          \<and> Grade st' = JString ''A'' \<and> ID st' = ID alice \<and> Name st' = Name alice
          \<and> Email st' = Email alice
          \<and> (\<forall>k. k \<noteq> 1 \<longrightarrow> map_of (AList.update 1 st' store_ab) k
                              = map_of store_ab k)
          \<and> map fst (AList.update 1 st' store_ab) = map fst store_ab)"
proof -
  have h: "map_of store_ab 1 = Some alice" by (simp add: store_ab_def)
  from update_student_only_Grade [OF h, of "JString ''A''"] h show ?thesis by blast
qed

text \<open>
  C5. For every \<^verbatim>\<open>POST /students\<close> whose JSON body is an object with the key \<^verbatim>\<open>Name\<close>,
  the record created and stored has \<^verbatim>\<open>Grade\<close> \<^verbatim>\<open>"N/A"\<close> when the body has no key
  \<^verbatim>\<open>Grade\<close>, and \<^verbatim>\<open>Email\<close> \<^verbatim>\<open>""\<close> when the body has no key \<^verbatim>\<open>Email\<close>.
\<close>

theorem create_student_defaults:
  assumes "''Name'' \<in> fst ` set kvs"
  shows "\<exists>st s'. create_student (JObject kvs) s = (Inr (201, Student_json st), s')
          \<and> map_of s' (ID st) = Some st
          \<and> (''Grade'' \<notin> fst ` set kvs \<longrightarrow> Grade st = JString ''N/A'')
          \<and> (''Email'' \<notin> fst ` set kvs \<longrightarrow> Email st = JString '''')"
proof -
  from assms obtain name where n: "map_of kvs ''Name'' = Some name"
    by (metis domD dom_map_of_conv_image_fst)
  have "''Grade'' \<notin> fst ` set kvs \<Longrightarrow> map_of kvs ''Grade'' = None"
    and "''Email'' \<notin> fst ` set kvs \<Longrightarrow> map_of kvs ''Email'' = None"
    by (simp_all add: map_of_eq_None_iff)
  then show ?thesis
    by (auto simp: create_student_object [OF n] Let_def update_conv')
qed

theorem create_student_defaults_witness:
  "''Name'' \<in> fst ` set [(''Name'', JString ''Alice'')]
   \<and> ''Grade'' \<notin> fst ` set [(''Name'', JString ''Alice'')]
   \<and> ''Email'' \<notin> fst ` set [(''Name'', JString ''Alice'')]
   \<and> (\<exists>st s'. create_student (JObject [(''Name'', JString ''Alice'')]) []
                 = (Inr (201, Student_json st), s')
          \<and> map_of s' (ID st) = Some st
          \<and> Grade st = JString ''N/A'' \<and> Email st = JString '''')"
proof -
  have h: "''Name'' \<in> fst ` set [(''Name'', JString ''Alice'')]" by simp
  have g: "''Grade'' \<notin> fst ` set [(''Name'', JString ''Alice'')]" by simp
  have e: "''Email'' \<notin> fst ` set [(''Name'', JString ''Alice'')]" by simp
  from create_student_defaults [OF h, of "[]"] h g e show ?thesis by blast
qed

text \<open>
  C6. Whenever \<^verbatim>\<open>POST /students\<close> returns a record, \<^verbatim>\<open>GET /students/<its ID>\<close> on the
  store the create left is answered 200 with the same record.
\<close>

theorem get_student_after_create:
  assumes "create_student j s = (Inr (code, Student_json st), s')"
  shows "get_student (ID st) s' = (Inr (200, Student_json st), s')"
  using assms
  by (auto simp: create_student_def get_student_def Let_def update_conv'
      split: if_splits option.splits bool.splits)

theorem get_student_after_create_witness:
  "create_student (JObject [(''Name'', JString ''Carl'')]) store_b
     = (Inr (201, Student_json carl), store_bc)
   \<and> get_student (ID carl) store_bc
     = (Inr (200, Student_json carl), store_bc)"
proof -
  have h: "create_student (JObject [(''Name'', JString ''Carl'')]) store_b
     = (Inr (201, Student_json carl), store_bc)"
    by (simp add: create_student_def Let_def carl_def store_b_def store_bc_def)
  from get_student_after_create [OF h] h show ?thesis by blast
qed

text \<open>
  C7. Whenever \<^verbatim>\<open>DELETE /students/i\<close> is answered 204 with an empty body,
  \<^verbatim>\<open>GET /students/i\<close> on the store the delete left is answered 404.
\<close>

theorem get_student_after_delete:
  assumes "delete_student i s = (Inr (204, Empty_body), s')"
  shows "get_student i s' = (Inl NotFound, s')
         \<and> status_code (fst (get_student i s')) = 404"
  using assms
  by (auto simp: delete_student_def get_student_def delete_conv' split: if_splits)

theorem get_student_after_delete_witness:
  "delete_student 1 store_ab = (Inr (204, Empty_body), store_b)
   \<and> get_student 1 store_b = (Inl NotFound, store_b)
   \<and> status_code (fst (get_student 1 store_b)) = 404"
proof -
  have h: "delete_student 1 store_ab = (Inr (204, Empty_body), store_b)"
    by (simp add: delete_student_def store_ab_def store_b_def)
  from get_student_after_delete [OF h] h show ?thesis by blast
qed

text \<open>
  C8. For every \<^verbatim>\<open>POST /students\<close> and \<^verbatim>\<open>PUT /students/i\<close> whose JSON body is an object
  with the key \<^verbatim>\<open>ID\<close>: replacing the supplied value by any other value \<open>v\<close> changes
  neither the response nor the store; the create answers and stores what it does for the
  body without the key, and so does the update when another key is left; a created
  record's \<^verbatim>\<open>ID\<close> is one more than the greatest key of the store; an updated record
  keeps the \<^verbatim>\<open>ID\<close> it had, stays under its key, and the keys stay as they were.
\<close>

theorem supplied_ID_ignored:
  assumes "''ID'' \<in> fst ` set kvs"
  shows "create_student (JObject (AList.update ''ID'' v kvs)) s = create_student (JObject kvs) s
       \<and> create_student (JObject (AList.delete ''ID'' kvs)) s = create_student (JObject kvs) s
       \<and> (create_student (JObject kvs) s = (Inr (201, Student_json st), s') \<longrightarrow>
            ID st = (if s = [] then 0 else Max (fst ` set s)) + 1)
       \<and> update_student i (JObject (AList.update ''ID'' v kvs)) s = update_student i (JObject kvs) s
       \<and> (AList.delete ''ID'' kvs \<noteq> [] \<longrightarrow>
            update_student i (JObject (AList.delete ''ID'' kvs)) s
              = update_student i (JObject kvs) s)
       \<and> (map_of s i = Some old
            \<and> update_student i (JObject kvs) s = (Inr (200, Student_json st2), s2) \<longrightarrow>
            ID st2 = ID old \<and> map_of s2 i = Some st2 \<and> map fst s2 = map fst s)"
proof -
  from assms have ne: "kvs \<noteq> []" by auto
  have c1: "create_student (JObject (AList.update ''ID'' v kvs)) s
      = create_student (JObject kvs) s"
    using ne by (intro create_student_body_cong) (simp_all add: update_conv')
  have c2: "create_student (JObject (AList.delete ''ID'' kvs)) s
      = create_student (JObject kvs) s"
  proof (cases "AList.delete ''ID'' kvs = []")
    case True
    then have "map_of (AList.delete ''ID'' kvs) ''Name'' = None" by simp
    then have "''Name'' \<notin> fst ` set kvs"
      by (simp add: delete_conv' map_of_eq_None_iff)
    with True ne show ?thesis by (simp add: create_student_def)
  next
    case False
    with ne show ?thesis
      by (intro create_student_body_cong) (simp_all add: delete_conv')
  qed
  have c3: "ID st = (if s = [] then 0 else Max (fst ` set s)) + 1"
    if "create_student (JObject kvs) s = (Inr (201, Student_json st), s')"
    using that
    by (auto simp: create_student_def Let_def max_default_Max
        split: if_splits option.splits bool.splits)
  have u1: "update_student i (JObject (AList.update ''ID'' v kvs)) s
      = update_student i (JObject kvs) s"
    using ne by (intro update_student_body_cong) (simp_all add: update_conv')
  have u2: "update_student i (JObject (AList.delete ''ID'' kvs)) s
      = update_student i (JObject kvs) s" if "AList.delete ''ID'' kvs \<noteq> []"
    using ne that by (intro update_student_body_cong) (simp_all add: delete_conv')
  have u3: "ID st2 = ID old \<and> map_of s2 i = Some st2 \<and> map fst s2 = map fst s"
    if "map_of s i = Some old"
      and "update_student i (JObject kvs) s = (Inr (200, Student_json st2), s2)"
  proof -
    from that(1) have mem: "i \<in> fst ` set s"
      by (metis domI dom_map_of_conv_image_fst)
    from that ne have st2: "st2 = old\<lparr>
           Name := (case map_of kvs ''Name'' of None \<Rightarrow> Name old | Some v \<Rightarrow> v),
           Grade := (case map_of kvs ''Grade'' of None \<Rightarrow> Grade old | Some v \<Rightarrow> v),
           Email := (case map_of kvs ''Email'' of None \<Rightarrow> Email old | Some v \<Rightarrow> v)\<rparr>"
      and s2: "s2 = AList.update i st2 s"
      by (auto simp: update_student_object Let_def)
    from st2 have "ID st2 = ID old" by simp
    moreover from s2 have "map_of s2 i = Some st2" by (simp add: update_conv')
    moreover from s2 mem have "map fst s2 = map fst s" by (simp add: update_keys)
    ultimately show ?thesis by simp
  qed
  from c1 c2 c3 u1 u2 u3 show ?thesis by blast
qed

theorem supplied_ID_ignored_witness:
  "''ID'' \<in> fst ` set body_with_ID
   \<and> create_student (JObject body_with_ID) store_ab = (Inr (201, Student_json zed), store_abz)
   \<and> AList.delete ''ID'' body_with_ID \<noteq> []
   \<and> map_of store_ab 1 = Some alice
   \<and> update_student 1 (JObject body_with_ID) store_ab
       = (Inr (200, Student_json alice_zed), store_zb)
   \<and> create_student (JObject (AList.update ''ID'' (JInt 99) body_with_ID)) store_ab
       = create_student (JObject body_with_ID) store_ab
   \<and> create_student (JObject (AList.delete ''ID'' body_with_ID)) store_ab
       = create_student (JObject body_with_ID) store_ab
   \<and> ID zed = (if store_ab = [] then 0 else Max (fst ` set store_ab)) + 1
   \<and> update_student 1 (JObject (AList.update ''ID'' (JInt 99) body_with_ID)) store_ab
       = update_student 1 (JObject body_with_ID) store_ab
   \<and> update_student 1 (JObject (AList.delete ''ID'' body_with_ID)) store_ab
       = update_student 1 (JObject body_with_ID) store_ab
   \<and> ID alice_zed = ID alice \<and> map_of store_zb 1 = Some alice_zed
   \<and> map fst store_zb = map fst store_ab"
proof -
  have h: "''ID'' \<in> fst ` set body_with_ID"
    by (simp add: body_with_ID_def)
  have c: "create_student (JObject body_with_ID) store_ab
      = (Inr (201, Student_json zed), store_abz)"
    by (simp add: create_student_def Let_def body_with_ID_def store_ab_def store_abz_def
        zed_def)
  have d: "AList.delete ''ID'' body_with_ID \<noteq> []"
    by (simp add: body_with_ID_def)
  have m: "map_of store_ab 1 = Some alice"
    by (simp add: store_ab_def)
  have u: "update_student 1 (JObject body_with_ID) store_ab
      = (Inr (200, Student_json alice_zed), store_zb)"
    by (simp add: update_student_def Let_def body_with_ID_def store_ab_def store_zb_def
        alice_def alice_zed_def)
  from supplied_ID_ignored [OF h, of "JInt 99" store_ab zed store_abz 1 alice alice_zed store_zb]
    h c d m u
  show ?thesis by blast
qed

text \<open>
  C9. In the store reached from the empty one by any sequence of requests, every record is
  stored under its own \<^verbatim>\<open>ID\<close>, the keys are pairwise different, and so are the
  \<^verbatim>\<open>ID\<close>s of the records.
\<close>

theorem reachable_store_keys_are_IDs:
  "(\<forall>k st. map_of (run rs []) k = Some st \<longrightarrow> ID st = k)
   \<and> (\<forall>(k, st) \<in> set (run rs []). ID st = k)
   \<and> distinct (map fst (run rs []))
   \<and> distinct (map (\<lambda>(k, st). ID st) (run rs []))"
proof -
  have ok: "store_ok (run rs [])"
    by (rule store_ok_run [OF store_ok_Nil])
  then have eq: "map (\<lambda>(k, st). ID st) (run rs []) = map fst (run rs [])"
    unfolding store_ok_def by auto
  from ok show ?thesis
    unfolding eq by (auto simp: store_ok_def dest: map_of_SomeD)
qed

theorem reachable_store_keys_are_IDs_witness:
  "run scenario [] = store_bc
   \<and> map_of (run scenario []) 3 = Some carl \<and> ID carl = 3
   \<and> (2, bob) \<in> set (run scenario []) \<and> ID bob = 2
   \<and> distinct (map fst (run scenario []))
   \<and> distinct (map (\<lambda>(k, st). ID st) (run scenario []))"
proof -
  have r: "run scenario [] = store_bc"
    by (simp add: scenario_def create_student_def delete_student_def Let_def
        store_bc_def bob_def carl_def)
  have m: "map_of (run scenario []) 3 = Some carl"
    unfolding r by (simp add: store_bc_def)
  have b: "(2, bob) \<in> set (run scenario [])"
    unfolding r by (simp add: store_bc_def)
  from reachable_store_keys_are_IDs [of scenario] r m b
  show ?thesis by blast
qed

text \<open>
  C10. Whenever a request is answered 404 or 400, the store after it is the store before it.
\<close>

theorem error_leaves_store:
  assumes "status_code (fst (handle r s)) = 404 \<or> status_code (fst (handle r s)) = 400"
  shows "snd (handle r s) = s"
  using status_code_error [OF assms] handle_error by blast

theorem error_leaves_store_witness:
  "(status_code (fst (handle (PUT_student 1 (JObject [])) store_ab)) = 404
    \<or> status_code (fst (handle (PUT_student 1 (JObject [])) store_ab)) = 400)
   \<and> snd (handle (PUT_student 1 (JObject [])) store_ab) = store_ab"
proof -
  have h: "status_code (fst (handle (PUT_student 1 (JObject [])) store_ab)) = 404
    \<or> status_code (fst (handle (PUT_student 1 (JObject [])) store_ab)) = 400"
    by (simp add: update_student_def store_ab_def)
  from error_leaves_store [OF h] h show ?thesis by blast
qed

end
